theory Spec2Isabelle
  imports Main "HOL-Library.Word"
begin

section \<open>Drum pads firmware: sampling, hit detection and playback\<close>

text \<open>
  A shallow embedding of \<^verbatim>\<open>Proyecto_DrumPads_2025.c\<close> (the tasks \<^verbatim>\<open>AdcTask\<close> and
  \<^verbatim>\<open>PlaySoundTask\<close>) and of the conversion of \<^verbatim>\<open>proyecto_AD.c\<close>.

  Machine integers are words: \<^verbatim>\<open>uint16_t\<close> is \<open>16 word\<close>, \<^verbatim>\<open>uint32_t\<close>,
  \<^verbatim>\<open>unsigned long\<close> and \<^verbatim>\<open>TickType_t\<close> are \<open>32 word\<close> (the target is a 32-bit
  microcontroller), so that \<open>+\<close>, \<open>-\<close> and \<open>*\<close> wrap around as in C.
\<close>

type_synonym uint16_t = "16 word"
type_synonym uint32_t = "32 word"
type_synonym int16_t = "16 word"

subsection \<open>Macros\<close>

definition ADC_THRESHOLD_MV_MINIMUM :: uint32_t where
  "ADC_THRESHOLD_MV_MINIMUM = 400"

definition SAMPLE_RATE :: int where
  "SAMPLE_RATE = 8000"

definition HIT_COOLDOWN_MS :: uint32_t where
  "HIT_COOLDOWN_MS = 100"

definition PLAY_SNARE :: uint32_t where
  "PLAY_SNARE = 1"

definition PLAY_HIHAT :: uint32_t where
  "PLAY_HIHAT = 2"

subsection \<open>Conversion of a raw code to millivolts\<close>

text \<open>
  \<^verbatim>\<open>(uint32_t)((valor_adc * 3300UL) / 4095UL)\<close>: the 16-bit code is converted to
  \<^verbatim>\<open>unsigned long\<close>, multiplied and divided there. The same expression stands in
  \<^verbatim>\<open>AdcTask\<close> of both projects.
\<close>

definition to_millivolts :: "uint16_t \<Rightarrow> uint32_t" where
  "to_millivolts valor_adc = (ucast valor_adc * 3300) div 4095"


subsection \<open>Collaborators: peripherals, kernel objects, sample data\<close>

datatype adc_ch = CH0 | CH1 | CH2 | CH3

definition ADC_CHANNEL_A :: adc_ch where
  "ADC_CHANNEL_A = CH1"

definition ADC_CHANNEL_B :: adc_ch where
  "ADC_CHANNEL_B = CH0"

datatype serial_port = UART_PC

datatype task_handle = adc_task_handle | umbral_task_handle | playSound_task_handle

text \<open>
  The calls a task makes on its collaborators, in program order. \<open>xTaskNotify h v\<close> is
  \<^verbatim>\<open>xTaskNotify(h, v, eSetValueWithOverwrite)\<close>, the only form the source uses.
  \<open>AnalogOutputWrite\<close> carries the value of the argument expression at the call (a
  sample read as a signed 16-bit number, or the literal 512); the driver behind it is not
  part of the sources.
\<close>

datatype action =
    AnalogInputReadSingle adc_ch
  | UartSendString serial_port string
  | vTaskNotifyGive task_handle
  | xTaskNotify task_handle uint32_t
  | AnalogOutputWrite int
  | vTaskDelay uint32_t

text \<open>
  What the kernel's headers define and the sources only use: \<^verbatim>\<open>portTICK_PERIOD_MS\<close>
  and the macro \<^verbatim>\<open>pdMS_TO_TICKS\<close>. Both are parameters of the model.
\<close>

record kernel_config =
  portTICK_PERIOD_MS :: uint32_t
  pdMS_TO_TICKS :: "uint32_t \<Rightarrow> uint32_t"

text \<open>
  \<^verbatim>\<open>drum_samples.h\<close> declares two arrays of unknown bound and their sizes; their
  definitions are in a file that is not part of the sources. An array is the function
  from an index to the element stored there, its size the declared \<^verbatim>\<open>const int\<close>.
\<close>

record drum_samples =
  snare_drum_size :: int
  snare_drum_sample :: "int \<Rightarrow> int16_t"
  hi_hat_size :: int
  hi_hat_sample :: "int \<Rightarrow> int16_t"

subsection \<open>Telemetry: \<^verbatim>\<open>sprintf\<close> with \<^verbatim>\<open>%lu\<close>\<close>

definition digit_char :: "nat \<Rightarrow> char" where
  "digit_char d = ''0123456789'' ! d"

function dec_digits :: "nat \<Rightarrow> string" where
  "dec_digits n =
     (if n < 10 then [digit_char n] else dec_digits (n div 10) @ [digit_char (n mod 10)])"
  by pat_completeness auto
termination
  by (relation "measure id") auto

declare dec_digits.simps [simp del]

definition CRLF :: string where
  "CRLF = [CHR 0x0D, CHR 0x0A]"

text \<open>\<^verbatim>\<open>sprintf(buffer, "A:%lu,B:%lu\r\n", milliv_A, milliv_B)\<close>\<close>

definition telemetry_line :: "uint32_t \<Rightarrow> uint32_t \<Rightarrow> string" where
  "telemetry_line a b = ''A:'' @ dec_digits (unat a) @ '',B:'' @ dec_digits (unat b) @ CRLF"

subsection \<open>\<^verbatim>\<open>AdcTask\<close>: one sampling pass\<close>

text \<open>
  The file's statics and the locals that \<^verbatim>\<open>AdcTask\<close> keeps across iterations of
  its loop.
\<close>

record adc_state =
  valor_adc_A :: uint16_t
  valor_adc_B :: uint16_t
  milliv_A :: uint32_t
  milliv_B :: uint32_t
  last_hit_time_A :: uint32_t
  last_hit_time_B :: uint32_t
  current_time :: uint32_t

text \<open>All statics are initialised to 0, and so are the locals at the start of the task.\<close>

definition AdcTask_start :: adc_state where
  "AdcTask_start =
     \<lparr>valor_adc_A = 0, valor_adc_B = 0, milliv_A = 0, milliv_B = 0,
      last_hit_time_A = 0, last_hit_time_B = 0, current_time = 0\<rparr>"

text \<open>
  What the environment hands to one pass: the two codes that
  \<^verbatim>\<open>AnalogInputReadSingle\<close> stores and the value \<^verbatim>\<open>xTaskGetTickCount\<close> returns.
\<close>

record pass_input =
  sample_A :: uint16_t
  sample_B :: uint16_t
  tick_count :: uint32_t

text \<open>The check of PAD A (lines 198 to 206) and of PAD B (lines 209 to 216).\<close>

definition check_pad_A :: "adc_state \<Rightarrow> adc_state \<times> action list" where
  "check_pad_A s =
     (if milliv_A s > ADC_THRESHOLD_MV_MINIMUM
         \<and> current_time s - last_hit_time_A s > HIT_COOLDOWN_MS
      then (s\<lparr>last_hit_time_A := current_time s\<rparr>,
            [vTaskNotifyGive umbral_task_handle,
             xTaskNotify playSound_task_handle PLAY_SNARE])
      else (s, []))"

definition check_pad_B :: "adc_state \<Rightarrow> adc_state \<times> action list" where
  "check_pad_B s =
     (if milliv_B s > ADC_THRESHOLD_MV_MINIMUM
         \<and> current_time s - last_hit_time_B s > HIT_COOLDOWN_MS
      then (s\<lparr>last_hit_time_B := current_time s\<rparr>,
            [vTaskNotifyGive umbral_task_handle,
             xTaskNotify playSound_task_handle PLAY_HIHAT])
      else (s, []))"

text \<open>The body of the loop, from the return of \<^verbatim>\<open>ulTaskNotifyTake\<close> to its next call.\<close>

definition AdcTask_pass :: "kernel_config \<Rightarrow> adc_state \<Rightarrow> pass_input \<Rightarrow> adc_state \<times> action list" where
  "AdcTask_pass k s x =
     (let s1 = s\<lparr>valor_adc_A := sample_A x\<rparr>;
          s2 = s1\<lparr>valor_adc_B := sample_B x\<rparr>;
          s3 = s2\<lparr>milliv_A := to_millivolts (valor_adc_A s2)\<rparr>;
          s4 = s3\<lparr>milliv_B := to_millivolts (valor_adc_B s3)\<rparr>;
          buffer = telemetry_line (milliv_A s4) (milliv_B s4);
          s5 = s4\<lparr>current_time := tick_count x * portTICK_PERIOD_MS k\<rparr>;
          (s6, notify_A) = check_pad_A s5;
          (s7, notify_B) = check_pad_B s6
      in (s7,
          [AnalogInputReadSingle ADC_CHANNEL_A, AnalogInputReadSingle ADC_CHANNEL_B,
           UartSendString UART_PC buffer] @ notify_A @ notify_B))"

text \<open>
  The loop \<^verbatim>\<open>while (1)\<close> over the passes that the timer has triggered so far: the
  state after them and the calls of each pass.
\<close>

fun AdcTask_loop :: "kernel_config \<Rightarrow> adc_state \<Rightarrow> pass_input list \<Rightarrow> adc_state \<times> action list list" where
  "AdcTask_loop k s [] = (s, [])"
| "AdcTask_loop k s (x # xs) =
     (let (s', out) = AdcTask_pass k s x;
          (s'', outs) = AdcTask_loop k s' xs
      in (s'', out # outs))"

definition AdcTask :: "kernel_config \<Rightarrow> pass_input list \<Rightarrow> adc_state \<times> action list list" where
  "AdcTask k xs = AdcTask_loop k AdcTask_start xs"

text \<open>The single-channel variant, \<^verbatim>\<open>AdcTask\<close> of \<^verbatim>\<open>proyecto_AD.c\<close>.\<close>

definition AdcTask_AD_pass :: "uint16_t \<Rightarrow> uint16_t \<times> uint32_t \<times> action list" where
  "AdcTask_AD_pass sample =
     (let valor_adc = sample;
          milliv = to_millivolts valor_adc
      in (valor_adc, milliv,
          [AnalogInputReadSingle CH1, UartSendString UART_PC (dec_digits (unat milliv) @ CRLF)]))"

subsection \<open>\<^verbatim>\<open>PlaySoundTask\<close>\<close>

text \<open>
  The argument of \<^verbatim>\<open>vTaskDelay\<close>: \<^verbatim>\<open>pdMS_TO_TICKS(1000 / SAMPLE_RATE)\<close>, a division
  of two \<^verbatim>\<open>int\<close> constants.
\<close>

definition sample_delay_ms :: int where
  "sample_delay_ms = 1000 div SAMPLE_RATE"

definition sample_delay_ticks :: "kernel_config \<Rightarrow> uint32_t" where
  "sample_delay_ticks k = pdMS_TO_TICKS k (word_of_int sample_delay_ms)"

text \<open>
  \<^verbatim>\<open>for (int i = 0; i < size; i++) { AnalogOutputWrite(sample[i]); vTaskDelay(...); }\<close>
  from the value \<open>i\<close> of the counter on, with \<open>sz\<close> the size. The counter never
  exceeds the size, a value of type \<^verbatim>\<open>int\<close>, so \<^verbatim>\<open>i++\<close> does not overflow.
\<close>

function play_samples :: "uint32_t \<Rightarrow> int \<Rightarrow> (int \<Rightarrow> int16_t) \<Rightarrow> int \<Rightarrow> action list" where
  "play_samples ticks sz sample i =
     (if i < sz
      then AnalogOutputWrite (sint (sample i)) # vTaskDelay ticks
             # play_samples ticks sz sample (i + 1)
      else [])"
  by pat_completeness auto
termination
  by (relation "measure (\<lambda>(ticks, sz, sample, i). nat (sz - i))") auto

declare play_samples.simps [simp del]

text \<open>What the task does with a received value, lines 142 to 161.\<close>

definition PlaySoundTask_play :: "kernel_config \<Rightarrow> drum_samples \<Rightarrow> uint32_t \<Rightarrow> action list" where
  "PlaySoundTask_play k d soundToPlay =
     (if soundToPlay = PLAY_SNARE
      then play_samples (sample_delay_ticks k) (snare_drum_size d) (snare_drum_sample d) 0
      else if soundToPlay = PLAY_HIHAT
      then play_samples (sample_delay_ticks k) (hi_hat_size d) (hi_hat_sample d) 0
      else [])
     @ [AnalogOutputWrite 512]"

subsection \<open>The notification of \<^verbatim>\<open>PlaySoundTask\<close>\<close>

text \<open>
  Modelled from the spec: the kernel's task notification behind \<^verbatim>\<open>xTaskNotify\<close>
  with \<^verbatim>\<open>eSetValueWithOverwrite\<close> and behind \<^verbatim>\<open>xTaskNotifyWait\<close>; the kernel is
  not part of the sources. The spec describes it as a single-slot mailbox, capacity 1,
  overwrite on full: a new write replaces any unread previous value, and the last value
  written is the one retained.
\<close>

type_synonym mailbox = "uint32_t option"

definition notify_overwrite :: "uint32_t \<Rightarrow> mailbox \<Rightarrow> mailbox" where
  "notify_overwrite v m = Some v"

text \<open>
  \<^verbatim>\<open>xTaskNotifyWait(0, 0xFFFFFFFF, &soundToPlay, portMAX_DELAY)\<close>: with nothing
  pending the task stays blocked (\<open>None\<close>); otherwise it receives the value and the slot
  is empty again.
\<close>

definition xTaskNotifyWait :: "mailbox \<Rightarrow> (uint32_t \<times> mailbox) option" where
  "xTaskNotifyWait m = (case m of None \<Rightarrow> None | Some v \<Rightarrow> Some (v, None))"

text \<open>
  One iteration of the loop of \<^verbatim>\<open>PlaySoundTask\<close>: the received value with the calls
  made for it, and the slot afterwards; \<open>None\<close> while the task is blocked.
\<close>

definition PlaySoundTask_iteration ::
  "kernel_config \<Rightarrow> drum_samples \<Rightarrow> mailbox \<Rightarrow> ((uint32_t \<times> action list) \<times> mailbox) option" where
  "PlaySoundTask_iteration k d m =
     (case xTaskNotifyWait m of
        None \<Rightarrow> None
      | Some (soundToPlay, m') \<Rightarrow> Some ((soundToPlay, PlaySoundTask_play k d soundToPlay), m'))"

text \<open>
  The two tasks together, as far as the slot is concerned. A schedule is a list of steps:
  a call made by \<^verbatim>\<open>AdcTask\<close>, or \<^verbatim>\<open>PlaySoundTask\<close> running its loop once (a step
  without effect while it is blocked). The result lists the playbacks in order.
\<close>

datatype step = AdcTask_calls action | PlaySoundTask_runs

fun deliver :: "action \<Rightarrow> mailbox \<Rightarrow> mailbox" where
  "deliver (xTaskNotify h v) m = (if h = playSound_task_handle then notify_overwrite v m else m)"
| "deliver _ m = m"

fun playbacks ::
  "kernel_config \<Rightarrow> drum_samples \<Rightarrow> mailbox \<Rightarrow> step list \<Rightarrow> (uint32_t \<times> action list) list" where
  "playbacks k d m [] = []"
| "playbacks k d m (AdcTask_calls a # st) = playbacks k d (deliver a m) st"
| "playbacks k d m (PlaySoundTask_runs # st) =
     (case PlaySoundTask_iteration k d m of
        None \<Rightarrow> playbacks k d m st
      | Some (p, m') \<Rightarrow> p # playbacks k d m' st)"

subsection \<open>Notions used to state the properties\<close>

text \<open>
  An event of a pad, as it is seen in the calls of a pass: the request of the pad's sound.
\<close>

definition hit_A :: "action list \<Rightarrow> bool" where
  "hit_A out = (xTaskNotify playSound_task_handle PLAY_SNARE \<in> set out)"

definition hit_B :: "action list \<Rightarrow> bool" where
  "hit_B out = (xTaskNotify playSound_task_handle PLAY_HIHAT \<in> set out)"

text \<open>The time of a pass, as line 195 computes it.\<close>

definition now :: "kernel_config \<Rightarrow> pass_input \<Rightarrow> uint32_t" where
  "now k x = tick_count x * portTICK_PERIOD_MS k"

text \<open>
  The time of the last pass in a history (inputs and calls of the passes so far, oldest
  first) that had an event of the pad, and 0, the initial value, when there was none.
\<close>

definition last_event_time ::
  "kernel_config \<Rightarrow> (action list \<Rightarrow> bool) \<Rightarrow> pass_input list \<Rightarrow> action list list \<Rightarrow> uint32_t" where
  "last_event_time k hit xs outs =
     foldl (\<lambda>t (x, out). if hit out then now k x else t) 0 (zip xs outs)"

text \<open>The condition of lines 198 and 209 on a value, a time and a time of the last event.\<close>

definition accepts :: "uint32_t \<Rightarrow> uint32_t \<Rightarrow> uint32_t \<Rightarrow> bool" where
  "accepts v t t0 = (v > ADC_THRESHOLD_MV_MINIMUM \<and> t - t0 > HIT_COOLDOWN_MS)"

text \<open>The calls of a pass up to the telemetry, and the two notifications of an event.\<close>

definition sampling_calls :: "pass_input \<Rightarrow> action list" where
  "sampling_calls x =
     [AnalogInputReadSingle ADC_CHANNEL_A, AnalogInputReadSingle ADC_CHANNEL_B,
      UartSendString UART_PC
        (telemetry_line (to_millivolts (sample_A x)) (to_millivolts (sample_B x)))]"

definition hit_calls :: "uint32_t \<Rightarrow> action list" where
  "hit_calls sound =
     [vTaskNotifyGive umbral_task_handle, xTaskNotify playSound_task_handle sound]"

text \<open>The number of passes, among the given ones, with an event of the pad.\<close>

definition count_events :: "(action list \<Rightarrow> bool) \<Rightarrow> action list list \<Rightarrow> nat" where
  "count_events hit outs = length (filter hit outs)"

text \<open>The values written to the analog output, in order.\<close>

fun analog_writes :: "action list \<Rightarrow> int list" where
  "analog_writes [] = []"
| "analog_writes (AnalogOutputWrite v # as) = v # analog_writes as"
| "analog_writes (_ # as) = analog_writes as"

subsection \<open>Concrete inputs for the examples\<close>

text \<open>A kernel with a tick of 10 ms, and two short sample buffers.\<close>

definition config_100Hz :: kernel_config where
  "config_100Hz = \<lparr>portTICK_PERIOD_MS = 10, pdMS_TO_TICKS = (\<lambda>ms. ms * 100 div 1000)\<rparr>"

definition demo_samples :: drum_samples where
  "demo_samples =
     \<lparr>snare_drum_size = 2,
      snare_drum_sample = (\<lambda>i. if i = 0 then 100 else if i = 1 then - 100 else 0),
      hi_hat_size = 1,
      hi_hat_sample = (\<lambda>i. if i = 0 then 7 else 0)\<rparr>"

section \<open>Helper facts\<close>

subsection \<open>The conversion\<close>

lemma unat_to_millivolts: "unat (to_millivolts r) = unat r * 3300 div 4095"
proof -
  have lt: "unat r < 65536"
    using unsigned_less [of r, where 'a = nat] by simp
  have u: "unat (ucast r :: uint32_t) = unat r"
    using lt by (simp add: unsigned_ucast_eq take_bit_nat_eq_self)
  have m: "unat ((ucast r :: uint32_t) * 3300) = unat r * 3300"
    using lt by (simp add: unat_word_ariths u)
  show ?thesis
    unfolding to_millivolts_def by (simp add: unat_div m)
qed

lemma to_millivolts_mono: "r \<le> r' \<Longrightarrow> to_millivolts r \<le> to_millivolts r'"
  by (simp add: word_le_nat_alt unat_to_millivolts div_le_mono)

lemma to_millivolts_le: "r \<le> 4095 \<Longrightarrow> to_millivolts r \<le> 3300"
  by (simp add: word_le_nat_alt unat_to_millivolts)

subsection \<open>One pass\<close>

lemma pass_out:
  "snd (AdcTask_pass k s x) =
     sampling_calls x
     @ (if accepts (to_millivolts (sample_A x)) (now k x) (last_hit_time_A s)
        then hit_calls PLAY_SNARE else [])
     @ (if accepts (to_millivolts (sample_B x)) (now k x) (last_hit_time_B s)
        then hit_calls PLAY_HIHAT else [])"
  by (simp add: AdcTask_pass_def check_pad_A_def check_pad_B_def Let_def accepts_def now_def
      sampling_calls_def hit_calls_def)

lemma pass_last_A:
  "last_hit_time_A (fst (AdcTask_pass k s x)) =
     (if accepts (to_millivolts (sample_A x)) (now k x) (last_hit_time_A s)
      then now k x else last_hit_time_A s)"
  by (simp add: AdcTask_pass_def check_pad_A_def check_pad_B_def Let_def accepts_def now_def)

lemma pass_last_B:
  "last_hit_time_B (fst (AdcTask_pass k s x)) =
     (if accepts (to_millivolts (sample_B x)) (now k x) (last_hit_time_B s)
      then now k x else last_hit_time_B s)"
  by (simp add: AdcTask_pass_def check_pad_A_def check_pad_B_def Let_def accepts_def now_def)

lemma pass_milliv_A: "milliv_A (fst (AdcTask_pass k s x)) = to_millivolts (sample_A x)"
  by (simp add: AdcTask_pass_def check_pad_A_def check_pad_B_def Let_def)

lemma pass_milliv_B: "milliv_B (fst (AdcTask_pass k s x)) = to_millivolts (sample_B x)"
  by (simp add: AdcTask_pass_def check_pad_A_def check_pad_B_def Let_def)

lemma pass_current_time: "current_time (fst (AdcTask_pass k s x)) = now k x"
  by (simp add: AdcTask_pass_def check_pad_A_def check_pad_B_def Let_def now_def)

lemma pass_hit_A:
  "hit_A (snd (AdcTask_pass k s x)) =
     accepts (to_millivolts (sample_A x)) (now k x) (last_hit_time_A s)"
  by (simp add: pass_out hit_A_def sampling_calls_def hit_calls_def PLAY_SNARE_def
      PLAY_HIHAT_def)

lemma pass_hit_B:
  "hit_B (snd (AdcTask_pass k s x)) =
     accepts (to_millivolts (sample_B x)) (now k x) (last_hit_time_B s)"
  by (simp add: pass_out hit_B_def sampling_calls_def hit_calls_def PLAY_SNARE_def
      PLAY_HIHAT_def)

subsection \<open>The loop of passes\<close>

lemma loop_length: "length (snd (AdcTask_loop k s xs)) = length xs"
  by (induction xs arbitrary: s) (simp_all add: Let_def split_beta)

lemma loop_snoc:
  "AdcTask_loop k s (xs @ [x]) =
     (fst (AdcTask_pass k (fst (AdcTask_loop k s xs)) x),
      snd (AdcTask_loop k s xs) @ [snd (AdcTask_pass k (fst (AdcTask_loop k s xs)) x)])"
  by (induction xs arbitrary: s) (simp_all add: Let_def split_beta)

text \<open>
  The variable \<^verbatim>\<open>last_hit_time_A\<close> holds the time of the pad's last event in the
  history of the loop, and its initial value when there was none. By induction on the
  history from its end.
\<close>

lemma loop_last_A:
  "last_hit_time_A (fst (AdcTask_loop k s xs)) =
     foldl (\<lambda>t (x, out). if hit_A out then now k x else t) (last_hit_time_A s)
       (zip xs (snd (AdcTask_loop k s xs)))"
proof (induction xs rule: rev_induct)
  case Nil
  show ?case by simp
next
  case (snoc x xs)
  show ?case
    by (simp add: loop_snoc loop_length pass_last_A pass_hit_A snoc.IH)
qed

lemma loop_last_B:
  "last_hit_time_B (fst (AdcTask_loop k s xs)) =
     foldl (\<lambda>t (x, out). if hit_B out then now k x else t) (last_hit_time_B s)
       (zip xs (snd (AdcTask_loop k s xs)))"
proof (induction xs rule: rev_induct)
  case Nil
  show ?case by simp
next
  case (snoc x xs)
  show ?case
    by (simp add: loop_snoc loop_length pass_last_B pass_hit_B snoc.IH)
qed

lemma start_last_A:
  "last_hit_time_A (fst (AdcTask k xs)) = last_event_time k hit_A xs (snd (AdcTask k xs))"
  by (simp add: AdcTask_def last_event_time_def loop_last_A AdcTask_start_def)

lemma start_last_B:
  "last_hit_time_B (fst (AdcTask k xs)) = last_event_time k hit_B xs (snd (AdcTask k xs))"
  by (simp add: AdcTask_def last_event_time_def loop_last_B AdcTask_start_def)

text \<open>While the time of every pass is within the window and both variables are 0, no
  pass has an event, so both stay 0.\<close>

lemma quiet_loop:
  assumes "\<forall>x\<in>set xs. now k x \<le> HIT_COOLDOWN_MS"
    and "last_hit_time_A s = 0" and "last_hit_time_B s = 0"
  shows "\<forall>out\<in>set (snd (AdcTask_loop k s xs)). \<not> hit_A out \<and> \<not> hit_B out"
  using assms
proof (induction xs arbitrary: s)
  case Nil
  show ?case by simp
next
  case (Cons x xs)
  have t: "now k x \<le> HIT_COOLDOWN_MS"
    using Cons.prems(1) by simp
  have nA: "\<not> accepts (to_millivolts (sample_A x)) (now k x) (last_hit_time_A s)"
    using t Cons.prems(2) by (simp add: accepts_def not_less)
  have nB: "\<not> accepts (to_millivolts (sample_B x)) (now k x) (last_hit_time_B s)"
    using t Cons.prems(3) by (simp add: accepts_def not_less)
  have a: "last_hit_time_A (fst (AdcTask_pass k s x)) = 0"
    using nA Cons.prems(2) by (simp add: pass_last_A)
  have b: "last_hit_time_B (fst (AdcTask_pass k s x)) = 0"
    using nB Cons.prems(3) by (simp add: pass_last_B)
  have rest: "\<forall>out\<in>set (snd (AdcTask_loop k (fst (AdcTask_pass k s x)) xs)).
      \<not> hit_A out \<and> \<not> hit_B out"
    using Cons.IH [OF _ a b] Cons.prems(1) by simp
  have here: "\<not> hit_A (snd (AdcTask_pass k s x)) \<and> \<not> hit_B (snd (AdcTask_pass k s x))"
    using nA nB by (simp add: pass_hit_A pass_hit_B)
  show ?case
    using rest here by (simp add: Let_def split_beta)
qed

subsection \<open>Playback\<close>

text \<open>The loop over the buffer, by computation induction.\<close>

lemma play_samples_upt:
  "0 \<le> i \<Longrightarrow>
   play_samples t sz f i =
     concat (map (\<lambda>j. [AnalogOutputWrite (sint (f (int j))), vTaskDelay t]) [nat i..<nat sz])"
proof (induction t sz f i rule: play_samples.induct)
  case (1 t sz f i)
  show ?case
  proof (cases "i < sz")
    case True
    have nxt: "nat (i + 1) = Suc (nat i)"
      using "1.prems" by simp
    have "[nat i..<nat sz] = nat i # [Suc (nat i)..<nat sz]"
      using True "1.prems" by (simp add: upt_conv_Cons)
    moreover have "play_samples t sz f (i + 1) =
        concat (map (\<lambda>j. [AnalogOutputWrite (sint (f (int j))), vTaskDelay t])
          [Suc (nat i)..<nat sz])"
      using "1.IH" [OF True] "1.prems" nxt by simp
    ultimately show ?thesis
      using True "1.prems" by (simp add: play_samples.simps [of t sz f i])
  next
    case False
    then show ?thesis
      using "1.prems" by (simp add: play_samples.simps [of t sz f i])
  qed
qed

lemma analog_writes_append: "analog_writes (xs @ ys) = analog_writes xs @ analog_writes ys"
  by (induction xs rule: analog_writes.induct) simp_all

lemma analog_writes_stream:
  "analog_writes (concat (map (\<lambda>j. [AnalogOutputWrite (g j), vTaskDelay t]) js)) = map g js"
  by (induction js) simp_all

subsection \<open>The slot\<close>

lemma playbacks_requests:
  "playbacks k d m
     (map (\<lambda>v. AdcTask_calls (xTaskNotify playSound_task_handle v)) (rs @ [b]) @ st)
   = playbacks k d (Some b) st"
  by (induction rs arbitrary: m) (simp_all add: notify_overwrite_def)

lemma playbacks_blocked: "playbacks k d None (replicate n PlaySoundTask_runs) = []"
  by (induction n) (simp_all add: PlaySoundTask_iteration_def xTaskNotifyWait_def)

lemma playbacks_pending:
  "playbacks k d (Some b) (replicate (Suc n) PlaySoundTask_runs)
   = [(b, PlaySoundTask_play k d b)]"
  by (simp add: PlaySoundTask_iteration_def xTaskNotifyWait_def playbacks_blocked)

lemma playbacks_calls_runs:
  "length (playbacks k d m (map AdcTask_calls cs @ replicate n PlaySoundTask_runs)) \<le> 1"
proof (induction cs arbitrary: m)
  case Nil
  show ?case
    by (cases n; cases m)
      (simp_all add: PlaySoundTask_iteration_def xTaskNotifyWait_def playbacks_blocked)
next
  case (Cons c cs)
  show ?case using Cons.IH by simp
qed

section \<open>The sampling task\<close>

text \<open>
  Claim C1. For every sequence of passes \<open>xs\<close> of the task since its start and every
  next pass \<open>x\<close>: the pass has an event of a pad if and only if the converted value of
  the pad exceeds the threshold of 400 mV and the time of the pass minus the time of the
  pad's last event (0 before the first one; the difference is the unsigned 32-bit one of
  the code) exceeds the cooldown of 100 ms. With an event, the pad's time of the last event
  becomes the time of the pass, and the feedback task and the playback task are notified,
  the latter with the pad's sound (snare for A, hi-hat for B). Without one, the pass makes
  no call for the pad and the pad's time of the last event stays as it was.
\<close>

theorem hit_iff_threshold_and_cooldown:
  "let (s, outs) = AdcTask k xs;
       (s', out) = AdcTask_pass k s x;
       fire_A = (to_millivolts (sample_A x) > ADC_THRESHOLD_MV_MINIMUM
                 \<and> now k x - last_event_time k hit_A xs outs > HIT_COOLDOWN_MS);
       fire_B = (to_millivolts (sample_B x) > ADC_THRESHOLD_MV_MINIMUM
                 \<and> now k x - last_event_time k hit_B xs outs > HIT_COOLDOWN_MS)
   in AdcTask k (xs @ [x]) = (s', outs @ [out])
      \<and> current_time s' = now k x
      \<and> hit_A out = fire_A \<and> hit_B out = fire_B
      \<and> out = sampling_calls x
              @ (if fire_A then hit_calls PLAY_SNARE else [])
              @ (if fire_B then hit_calls PLAY_HIHAT else [])
      \<and> last_hit_time_A s' = (if fire_A then now k x else last_hit_time_A s)
      \<and> last_hit_time_B s' = (if fire_B then now k x else last_hit_time_B s)"
proof -
  obtain s outs where run: "AdcTask k xs = (s, outs)"
    by (cases "AdcTask k xs")
  obtain s' out where pass: "AdcTask_pass k s x = (s', out)"
    by (cases "AdcTask_pass k s x")
  have a: "last_hit_time_A s = last_event_time k hit_A xs outs"
    using start_last_A [of k xs] run by simp
  have b: "last_hit_time_B s = last_event_time k hit_B xs outs"
    using start_last_B [of k xs] run by simp
  have snoc: "AdcTask k (xs @ [x]) = (s', outs @ [out])"
    using run pass by (simp add: AdcTask_def loop_snoc)
  have time: "current_time s' = now k x"
    using pass_current_time [of k s x] pass by simp
  have out: "out = sampling_calls x
     @ (if accepts (to_millivolts (sample_A x)) (now k x) (last_hit_time_A s)
        then hit_calls PLAY_SNARE else [])
     @ (if accepts (to_millivolts (sample_B x)) (now k x) (last_hit_time_B s)
        then hit_calls PLAY_HIHAT else [])"
    using pass_out [of k s x] pass by simp
  have hA: "hit_A out = accepts (to_millivolts (sample_A x)) (now k x) (last_hit_time_A s)"
    using pass_hit_A [of k s x] pass by simp
  have hB: "hit_B out = accepts (to_millivolts (sample_B x)) (now k x) (last_hit_time_B s)"
    using pass_hit_B [of k s x] pass by simp
  have lA: "last_hit_time_A s' =
      (if accepts (to_millivolts (sample_A x)) (now k x) (last_hit_time_A s)
       then now k x else last_hit_time_A s)"
    using pass_last_A [of k s x] pass by simp
  have lB: "last_hit_time_B s' =
      (if accepts (to_millivolts (sample_B x)) (now k x) (last_hit_time_B s)
       then now k x else last_hit_time_B s)"
    using pass_last_B [of k s x] pass by simp
  show ?thesis
    unfolding run pass Let_def prod.case
    using snoc time out hA hB lA lB
    unfolding accepts_def a b
    by simp
qed

text \<open>
  An instance: a first pass at 200 ms with pad A at 1611 mV and pad B at 386 mV has an
  event of A only. In a second pass at 250 ms with both pads at 1611 mV, A is within its
  cooldown and B, which never had an event, has one.
\<close>

theorem hit_iff_threshold_and_cooldown_witness:
  "(let xs = [\<lparr>sample_A = 2000, sample_B = 480, tick_count = 20\<rparr>];
        x = \<lparr>sample_A = 2000, sample_B = 2000, tick_count = 25\<rparr>
    in snd (AdcTask config_100Hz xs) =
         [[AnalogInputReadSingle CH1, AnalogInputReadSingle CH0,
           UartSendString UART_PC (''A:1611,B:386'' @ CRLF),
           vTaskNotifyGive umbral_task_handle, xTaskNotify playSound_task_handle 1]]
       \<and> last_event_time config_100Hz hit_A xs (snd (AdcTask config_100Hz xs)) = 200
       \<and> last_event_time config_100Hz hit_B xs (snd (AdcTask config_100Hz xs)) = 0
       \<and> now config_100Hz x = 250
       \<and> snd (AdcTask_pass config_100Hz (fst (AdcTask config_100Hz xs)) x) =
         [AnalogInputReadSingle CH1, AnalogInputReadSingle CH0,
          UartSendString UART_PC (''A:1611,B:1611'' @ CRLF),
          vTaskNotifyGive umbral_task_handle, xTaskNotify playSound_task_handle 2]
       \<and> last_hit_time_A (fst (AdcTask_pass config_100Hz (fst (AdcTask config_100Hz xs)) x))
           = 200
       \<and> last_hit_time_B (fst (AdcTask_pass config_100Hz (fst (AdcTask config_100Hz xs)) x))
           = 250)"
  using hit_iff_threshold_and_cooldown [of config_100Hz
      "[\<lparr>sample_A = 2000, sample_B = 480, tick_count = 20\<rparr>]"
      "\<lparr>sample_A = 2000, sample_B = 2000, tick_count = 25\<rparr>"]
  by (simp add: Let_def split_beta AdcTask_def pass_out pass_last_A pass_last_B accepts_def
      now_def config_100Hz_def AdcTask_start_def to_millivolts_def last_event_time_def
      hit_A_def hit_B_def sampling_calls_def hit_calls_def telemetry_line_def
      dec_digits.simps digit_char_def ADC_THRESHOLD_MV_MINIMUM_def HIT_COOLDOWN_MS_def
      ADC_CHANNEL_A_def ADC_CHANNEL_B_def PLAY_SNARE_def PLAY_HIHAT_def)

text \<open>
  Claim C2. For raw codes \<open>r \<le> r'\<close> in the range 0 to 4095, the conversion of both
  projects yields \<open>r * 3300 div 4095\<close> (the 32-bit multiplication does not wrap), it is
  monotonic, \<open>to_millivolts r \<le> to_millivolts r'\<close>, and its value is between 0 and
  3300. It is the value that a pass stores in \<^verbatim>\<open>milliv_A\<close> and \<^verbatim>\<open>milliv_B\<close>.
\<close>

theorem conversion_exact_monotone_bounded:
  assumes "r \<le> 4095" and "r' \<le> 4095" and "r \<le> r'"
  shows "unat (to_millivolts r) = unat r * 3300 div 4095
         \<and> to_millivolts r \<le> to_millivolts r'
         \<and> 0 \<le> to_millivolts r \<and> to_millivolts r \<le> 3300
         \<and> milliv_A (fst (AdcTask_pass k s \<lparr>sample_A = r, sample_B = r', tick_count = c\<rparr>))
             = to_millivolts r
         \<and> milliv_B (fst (AdcTask_pass k s \<lparr>sample_A = r, sample_B = r', tick_count = c\<rparr>))
             = to_millivolts r'
         \<and> fst (snd (AdcTask_AD_pass r)) = to_millivolts r"
  using assms
  by (simp add: unat_to_millivolts to_millivolts_mono to_millivolts_le pass_milliv_A
      pass_milliv_B AdcTask_AD_pass_def Let_def)

theorem conversion_exact_monotone_bounded_witness:
  "(2000 :: uint16_t) \<le> 4095 \<and> (4095 :: uint16_t) \<le> 4095
   \<and> unat (to_millivolts 2000) = 1611 \<and> to_millivolts 2000 \<le> to_millivolts 4095
   \<and> to_millivolts 4095 = 3300
   \<and> milliv_A (fst (AdcTask_pass config_100Hz AdcTask_start
        \<lparr>sample_A = 2000, sample_B = 4095, tick_count = 7\<rparr>)) = 1611
   \<and> milliv_B (fst (AdcTask_pass config_100Hz AdcTask_start
        \<lparr>sample_A = 2000, sample_B = 4095, tick_count = 7\<rparr>)) = 3300"
  using conversion_exact_monotone_bounded [of 2000 4095 config_100Hz AdcTask_start 7]
  by (simp add: to_millivolts_def)

text \<open>
  Claim C7, as stated: a raw reading of 2000 converts to 1610. The code yields 1611:
  \<open>2000 * 3300 = 6600000\<close> and \<open>6600000 div 4095 = 1611\<close>.
\<close>

theorem raw_2000_is_not_1610:
  "to_millivolts 2000 \<noteq> 1610
   \<and> milliv_A (fst (AdcTask_pass config_100Hz AdcTask_start
        \<lparr>sample_A = 2000, sample_B = 0, tick_count = 0\<rparr>)) \<noteq> 1610"
  by (simp add: pass_milliv_A to_millivolts_def)

text \<open>
  Claim C7, amended: a raw reading of 2000 on channel A converts to 1611 and one of 500 to
  402, both above the threshold of 400, so that the pass has an event of A exactly if the
  cooldown has elapsed; a raw reading of 480 converts to 386, not above the threshold, and
  the pass has no event of A.
\<close>

theorem scenario_conversions:
  "to_millivolts 2000 = 1611 \<and> to_millivolts 500 = 402 \<and> to_millivolts 480 = 386
   \<and> (sample_A x = 2000 \<or> sample_A x = 500 \<longrightarrow>
        ADC_THRESHOLD_MV_MINIMUM < to_millivolts (sample_A x)
        \<and> hit_A (snd (AdcTask_pass k s x))
            = (now k x - last_hit_time_A s > HIT_COOLDOWN_MS))
   \<and> (sample_A x = 480 \<longrightarrow>
        \<not> ADC_THRESHOLD_MV_MINIMUM < to_millivolts (sample_A x)
        \<and> \<not> hit_A (snd (AdcTask_pass k s x)))"
  by (auto simp add: pass_hit_A accepts_def to_millivolts_def ADC_THRESHOLD_MV_MINIMUM_def)

theorem scenario_conversions_witness:
  "hit_A (snd (AdcTask_pass config_100Hz AdcTask_start
       \<lparr>sample_A = 2000, sample_B = 0, tick_count = 11\<rparr>))
   \<and> hit_A (snd (AdcTask_pass config_100Hz AdcTask_start
       \<lparr>sample_A = 500, sample_B = 0, tick_count = 11\<rparr>))
   \<and> \<not> hit_A (snd (AdcTask_pass config_100Hz AdcTask_start
       \<lparr>sample_A = 500, sample_B = 0, tick_count = 10\<rparr>))
   \<and> \<not> hit_A (snd (AdcTask_pass config_100Hz AdcTask_start
       \<lparr>sample_A = 480, sample_B = 0, tick_count = 11\<rparr>))"
  using
    scenario_conversions [of "\<lparr>sample_A = 2000, sample_B = 0, tick_count = 11\<rparr>"
      config_100Hz AdcTask_start]
    scenario_conversions [of "\<lparr>sample_A = 500, sample_B = 0, tick_count = 11\<rparr>"
      config_100Hz AdcTask_start]
    scenario_conversions [of "\<lparr>sample_A = 500, sample_B = 0, tick_count = 10\<rparr>"
      config_100Hz AdcTask_start]
    scenario_conversions [of "\<lparr>sample_A = 480, sample_B = 0, tick_count = 11\<rparr>"
      config_100Hz AdcTask_start]
  by (simp add: now_def config_100Hz_def AdcTask_start_def HIT_COOLDOWN_MS_def)

text \<open>
  Claim C5, as stated: if both channels cross the threshold in the same pass, both events
  fire. The check of each pad also asks for the pad's cooldown (lines 198 and 209), so
  this fails. In the first pass of the task at tick 0 with both pads at 1611 mV, the calls
  end with the telemetry line: neither event fires. And in a pass at 250 ms after an
  event of pad A at 200 ms, again with both pads at 1611 mV, pad A is within its cooldown
  and the event of pad B alone fires.
\<close>

theorem both_above_threshold_without_both_events:
  "ADC_THRESHOLD_MV_MINIMUM < to_millivolts 2000
   \<and> snd (AdcTask_pass config_100Hz AdcTask_start
            \<lparr>sample_A = 2000, sample_B = 2000, tick_count = 0\<rparr>) =
       [AnalogInputReadSingle CH1, AnalogInputReadSingle CH0,
        UartSendString UART_PC (''A:1611,B:1611'' @ CRLF)]
   \<and> hit_A (snd (AdcTask_pass config_100Hz AdcTask_start
               \<lparr>sample_A = 2000, sample_B = 480, tick_count = 20\<rparr>))
   \<and> snd (AdcTask_pass config_100Hz
            (fst (AdcTask_pass config_100Hz AdcTask_start
                    \<lparr>sample_A = 2000, sample_B = 480, tick_count = 20\<rparr>))
            \<lparr>sample_A = 2000, sample_B = 2000, tick_count = 25\<rparr>) =
       [AnalogInputReadSingle CH1, AnalogInputReadSingle CH0,
        UartSendString UART_PC (''A:1611,B:1611'' @ CRLF),
        vTaskNotifyGive umbral_task_handle, xTaskNotify playSound_task_handle 2]"
  by (simp add: pass_out pass_hit_A pass_last_A pass_last_B accepts_def sampling_calls_def
      hit_calls_def now_def config_100Hz_def AdcTask_start_def to_millivolts_def
      telemetry_line_def dec_digits.simps digit_char_def ADC_THRESHOLD_MV_MINIMUM_def
      HIT_COOLDOWN_MS_def ADC_CHANNEL_A_def ADC_CHANNEL_B_def hit_A_def PLAY_SNARE_def
      PLAY_HIHAT_def)

text \<open>
  Claim C5, amended. In every pass the calls are, in this order: the read of channel A,
  the read of channel B, the telemetry line, the notifications of pad A if it has an
  event, the notifications of pad B if it has one. Each pad's event depends on its own
  value and its own time of the last event before the pass only, so that neither event
  suppresses the other: when both channels cross the threshold in the same pass and the
  cooldown of each has elapsed, both events fire, A's notifications strictly before B's.
\<close>

theorem pass_order_A_before_B:
  "let out = snd (AdcTask_pass k s x);
       fire_A = (to_millivolts (sample_A x) > ADC_THRESHOLD_MV_MINIMUM
                 \<and> now k x - last_hit_time_A s > HIT_COOLDOWN_MS);
       fire_B = (to_millivolts (sample_B x) > ADC_THRESHOLD_MV_MINIMUM
                 \<and> now k x - last_hit_time_B s > HIT_COOLDOWN_MS)
   in out =
        [AnalogInputReadSingle ADC_CHANNEL_A, AnalogInputReadSingle ADC_CHANNEL_B,
         UartSendString UART_PC
           (telemetry_line (to_millivolts (sample_A x)) (to_millivolts (sample_B x)))]
        @ (if fire_A
           then [vTaskNotifyGive umbral_task_handle,
                 xTaskNotify playSound_task_handle PLAY_SNARE] else [])
        @ (if fire_B
           then [vTaskNotifyGive umbral_task_handle,
                 xTaskNotify playSound_task_handle PLAY_HIHAT] else [])
      \<and> hit_A out = fire_A \<and> hit_B out = fire_B
      \<and> (fire_A \<and> fire_B \<longrightarrow>
           out =
             [AnalogInputReadSingle ADC_CHANNEL_A, AnalogInputReadSingle ADC_CHANNEL_B,
              UartSendString UART_PC
                (telemetry_line (to_millivolts (sample_A x)) (to_millivolts (sample_B x))),
              vTaskNotifyGive umbral_task_handle,
              xTaskNotify playSound_task_handle PLAY_SNARE,
              vTaskNotifyGive umbral_task_handle,
              xTaskNotify playSound_task_handle PLAY_HIHAT])"
  unfolding Let_def pass_hit_A pass_hit_B
  by (simp add: pass_out accepts_def sampling_calls_def hit_calls_def)

theorem pass_order_A_before_B_witness:
  "snd (AdcTask_pass config_100Hz AdcTask_start
          \<lparr>sample_A = 2000, sample_B = 500, tick_count = 11\<rparr>) =
     [AnalogInputReadSingle CH1, AnalogInputReadSingle CH0,
      UartSendString UART_PC (''A:1611,B:402'' @ CRLF),
      vTaskNotifyGive umbral_task_handle, xTaskNotify playSound_task_handle 1,
      vTaskNotifyGive umbral_task_handle, xTaskNotify playSound_task_handle 2]"
  using pass_order_A_before_B [of config_100Hz AdcTask_start
      "\<lparr>sample_A = 2000, sample_B = 500, tick_count = 11\<rparr>"]
  by (simp add: Let_def now_def config_100Hz_def AdcTask_start_def to_millivolts_def
      ADC_THRESHOLD_MV_MINIMUM_def HIT_COOLDOWN_MS_def ADC_CHANNEL_A_def ADC_CHANNEL_B_def
      PLAY_SNARE_def PLAY_HIHAT_def telemetry_line_def dec_digits.simps digit_char_def)

text \<open>
  Claim C6. Take two consecutive passes whose values of a pad both exceed the threshold,
  the first with an event of the pad, the second within the cooldown of that event (its
  time minus the time of the first, as the code subtracts, is at most 100 ms). Then the
  second pass has no event of the pad: the two passes have exactly one, and the time of
  the pad's last event is still the time of the first pass.
\<close>

theorem debounce_one_event:
  assumes "AdcTask_pass k s x1 = (s1, out1)" and "AdcTask_pass k s1 x2 = (s2, out2)"
    and "now k x2 - now k x1 \<le> HIT_COOLDOWN_MS"
  shows "(to_millivolts (sample_A x1) > ADC_THRESHOLD_MV_MINIMUM \<and> hit_A out1
            \<and> to_millivolts (sample_A x2) > ADC_THRESHOLD_MV_MINIMUM
          \<longrightarrow> \<not> hit_A out2 \<and> count_events hit_A [out1, out2] = 1
              \<and> last_hit_time_A s2 = now k x1)
       \<and> (to_millivolts (sample_B x1) > ADC_THRESHOLD_MV_MINIMUM \<and> hit_B out1
            \<and> to_millivolts (sample_B x2) > ADC_THRESHOLD_MV_MINIMUM
          \<longrightarrow> \<not> hit_B out2 \<and> count_events hit_B [out1, out2] = 1
              \<and> last_hit_time_B s2 = now k x1)"
proof -
  have hA1: "hit_A out1 = accepts (to_millivolts (sample_A x1)) (now k x1) (last_hit_time_A s)"
    using pass_hit_A [of k s x1] assms(1) by simp
  have hB1: "hit_B out1 = accepts (to_millivolts (sample_B x1)) (now k x1) (last_hit_time_B s)"
    using pass_hit_B [of k s x1] assms(1) by simp
  have lA1: "hit_A out1 \<Longrightarrow> last_hit_time_A s1 = now k x1"
    using pass_last_A [of k s x1] assms(1) hA1 by simp
  have lB1: "hit_B out1 \<Longrightarrow> last_hit_time_B s1 = now k x1"
    using pass_last_B [of k s x1] assms(1) hB1 by simp
  have hA2: "hit_A out2 = accepts (to_millivolts (sample_A x2)) (now k x2) (last_hit_time_A s1)"
    using pass_hit_A [of k s1 x2] assms(2) by simp
  have hB2: "hit_B out2 = accepts (to_millivolts (sample_B x2)) (now k x2) (last_hit_time_B s1)"
    using pass_hit_B [of k s1 x2] assms(2) by simp
  have lA2: "last_hit_time_A s2 = (if hit_A out2 then now k x2 else last_hit_time_A s1)"
    using pass_last_A [of k s1 x2] assms(2) hA2 by simp
  have lB2: "last_hit_time_B s2 = (if hit_B out2 then now k x2 else last_hit_time_B s1)"
    using pass_last_B [of k s1 x2] assms(2) hB2 by simp
  have nA: "hit_A out1 \<Longrightarrow> \<not> hit_A out2"
    using assms(3) lA1 hA2 by (simp add: accepts_def not_less)
  have nB: "hit_B out1 \<Longrightarrow> \<not> hit_B out2"
    using assms(3) lB1 hB2 by (simp add: accepts_def not_less)
  show ?thesis
    using nA nB lA1 lB1 lA2 lB2 by (auto simp add: count_events_def)
qed

text \<open>
  An instance: both pads above the threshold at 200 ms and again at 250 ms. The first
  pass has an event of each pad, the second has none.
\<close>

theorem debounce_one_event_witness:
  "(let k = config_100Hz;
        x1 = \<lparr>sample_A = 2000, sample_B = 500, tick_count = 20\<rparr>;
        x2 = \<lparr>sample_A = 2000, sample_B = 500, tick_count = 25\<rparr>;
        p1 = AdcTask_pass k AdcTask_start x1;
        p2 = AdcTask_pass k (fst p1) x2
    in now k x2 - now k x1 = 50 \<and> hit_A (snd p1) \<and> hit_B (snd p1)
       \<and> \<not> hit_A (snd p2) \<and> \<not> hit_B (snd p2)
       \<and> count_events hit_A [snd p1, snd p2] = 1
       \<and> count_events hit_B [snd p1, snd p2] = 1)"
  using debounce_one_event [of config_100Hz AdcTask_start
      "\<lparr>sample_A = 2000, sample_B = 500, tick_count = 20\<rparr>"
      "fst (AdcTask_pass config_100Hz AdcTask_start
         \<lparr>sample_A = 2000, sample_B = 500, tick_count = 20\<rparr>)"
      "snd (AdcTask_pass config_100Hz AdcTask_start
         \<lparr>sample_A = 2000, sample_B = 500, tick_count = 20\<rparr>)"
      "\<lparr>sample_A = 2000, sample_B = 500, tick_count = 25\<rparr>"
      "fst (AdcTask_pass config_100Hz
         (fst (AdcTask_pass config_100Hz AdcTask_start
            \<lparr>sample_A = 2000, sample_B = 500, tick_count = 20\<rparr>))
         \<lparr>sample_A = 2000, sample_B = 500, tick_count = 25\<rparr>)"
      "snd (AdcTask_pass config_100Hz
         (fst (AdcTask_pass config_100Hz AdcTask_start
            \<lparr>sample_A = 2000, sample_B = 500, tick_count = 20\<rparr>))
         \<lparr>sample_A = 2000, sample_B = 500, tick_count = 25\<rparr>)"]
  by (simp add: Let_def now_def config_100Hz_def HIT_COOLDOWN_MS_def
      ADC_THRESHOLD_MV_MINIMUM_def to_millivolts_def pass_hit_A pass_hit_B accepts_def
      AdcTask_start_def)

text \<open>
  Claim C10. Both times of the last event start at 0. As long as the time of every pass
  since the start of the task is at most the cooldown of 100 ms, no pass has an event of
  either pad, whatever the values read.
\<close>

theorem no_hit_before_cooldown_since_boot:
  assumes "\<forall>x\<in>set xs. now k x \<le> HIT_COOLDOWN_MS"
  shows "\<forall>out\<in>set (snd (AdcTask k xs)). \<not> hit_A out \<and> \<not> hit_B out"
  unfolding AdcTask_def
  using assms by (rule quiet_loop) (simp_all add: AdcTask_start_def)

text \<open>
  An instance: passes at 50 ms and at 100 ms with both pads above the threshold.
\<close>

theorem no_hit_before_cooldown_since_boot_witness:
  "now config_100Hz \<lparr>sample_A = 2000, sample_B = 4095, tick_count = 5\<rparr> = 50
   \<and> now config_100Hz \<lparr>sample_A = 2000, sample_B = 4095, tick_count = 10\<rparr> = 100
   \<and> ADC_THRESHOLD_MV_MINIMUM < to_millivolts 2000
   \<and> ADC_THRESHOLD_MV_MINIMUM < to_millivolts 4095
   \<and> length (snd (AdcTask config_100Hz
        [\<lparr>sample_A = 2000, sample_B = 4095, tick_count = 5\<rparr>,
         \<lparr>sample_A = 2000, sample_B = 4095, tick_count = 10\<rparr>])) = 2
   \<and> \<not> hit_A (snd (AdcTask config_100Hz
        [\<lparr>sample_A = 2000, sample_B = 4095, tick_count = 5\<rparr>,
         \<lparr>sample_A = 2000, sample_B = 4095, tick_count = 10\<rparr>]) ! 0)
   \<and> \<not> hit_B (snd (AdcTask config_100Hz
        [\<lparr>sample_A = 2000, sample_B = 4095, tick_count = 5\<rparr>,
         \<lparr>sample_A = 2000, sample_B = 4095, tick_count = 10\<rparr>]) ! 0)
   \<and> \<not> hit_A (snd (AdcTask config_100Hz
        [\<lparr>sample_A = 2000, sample_B = 4095, tick_count = 5\<rparr>,
         \<lparr>sample_A = 2000, sample_B = 4095, tick_count = 10\<rparr>]) ! 1)
   \<and> \<not> hit_B (snd (AdcTask config_100Hz
        [\<lparr>sample_A = 2000, sample_B = 4095, tick_count = 5\<rparr>,
         \<lparr>sample_A = 2000, sample_B = 4095, tick_count = 10\<rparr>]) ! 1)"
  using no_hit_before_cooldown_since_boot [of
      "[\<lparr>sample_A = 2000, sample_B = 4095, tick_count = 5\<rparr>,
        \<lparr>sample_A = 2000, sample_B = 4095, tick_count = 10\<rparr>]" config_100Hz]
  by (simp add: now_def config_100Hz_def HIT_COOLDOWN_MS_def ADC_THRESHOLD_MV_MINIMUM_def
      to_millivolts_def AdcTask_def Let_def split_beta)

section \<open>The playback task\<close>

text \<open>
  Claim C4. With a valid sound identifier the playback ends (\<open>play_samples\<close> is a total
  function: its counter \<open>i\<close> approaches the size) after these calls: for each index from 0
  to \<open>N - 1\<close>, in this order, the write of the sample at that index, followed by the
  delay; then the write of the value 512, which the code calls the mid-scale value. The
  number \<open>N\<close> is the declared size of the selected buffer. So the values written to the
  analog output are the \<open>N\<close> samples in buffer order and then 512.
\<close>

theorem playback_streams_buffer_then_neutral:
  "PlaySoundTask_play k d PLAY_SNARE =
     concat (map (\<lambda>i. [AnalogOutputWrite (sint (snare_drum_sample d (int i))),
                        vTaskDelay (sample_delay_ticks k)])
                 [0..<nat (snare_drum_size d)])
     @ [AnalogOutputWrite 512]
   \<and> analog_writes (PlaySoundTask_play k d PLAY_SNARE) =
       map (\<lambda>i. sint (snare_drum_sample d (int i))) [0..<nat (snare_drum_size d)] @ [512]
   \<and> PlaySoundTask_play k d PLAY_HIHAT =
     concat (map (\<lambda>i. [AnalogOutputWrite (sint (hi_hat_sample d (int i))),
                        vTaskDelay (sample_delay_ticks k)])
                 [0..<nat (hi_hat_size d)])
     @ [AnalogOutputWrite 512]
   \<and> analog_writes (PlaySoundTask_play k d PLAY_HIHAT) =
       map (\<lambda>i. sint (hi_hat_sample d (int i))) [0..<nat (hi_hat_size d)] @ [512]"
  by (simp add: PlaySoundTask_play_def play_samples_upt analog_writes_append
      analog_writes_stream PLAY_SNARE_def PLAY_HIHAT_def)

theorem playback_streams_buffer_then_neutral_witness:
  "PlaySoundTask_play config_100Hz demo_samples 1 =
     [AnalogOutputWrite 100, vTaskDelay 0, AnalogOutputWrite (- 100), vTaskDelay 0,
      AnalogOutputWrite 512]
   \<and> analog_writes (PlaySoundTask_play config_100Hz demo_samples 1) = [100, - 100, 512]
   \<and> analog_writes (PlaySoundTask_play config_100Hz demo_samples 2) = [7, 512]"
  using playback_streams_buffer_then_neutral [of config_100Hz demo_samples]
  by (simp add: demo_samples_def config_100Hz_def sample_delay_ticks_def sample_delay_ms_def
      SAMPLE_RATE_def upt_rec PLAY_SNARE_def PLAY_HIHAT_def)

text \<open>
  Claim C9. With a received value that is neither \<^verbatim>\<open>PLAY_SNARE\<close> nor
  \<^verbatim>\<open>PLAY_HIHAT\<close>, the task streams no buffer and makes one call: the write of 512.
\<close>

theorem unknown_sound_writes_neutral_only:
  assumes "soundToPlay \<noteq> PLAY_SNARE" and "soundToPlay \<noteq> PLAY_HIHAT"
  shows "PlaySoundTask_play k d soundToPlay = [AnalogOutputWrite 512]"
  using assms by (simp add: PlaySoundTask_play_def)

theorem unknown_sound_writes_neutral_only_witness:
  "(3 :: uint32_t) \<noteq> PLAY_SNARE \<and> (3 :: uint32_t) \<noteq> PLAY_HIHAT
   \<and> PlaySoundTask_play config_100Hz demo_samples 3 = [AnalogOutputWrite 512]"
  using unknown_sound_writes_neutral_only [of 3 config_100Hz demo_samples]
  by (simp add: PLAY_SNARE_def PLAY_HIHAT_def)

text \<open>
  Claim C8. The delay after each sample is \<^verbatim>\<open>pdMS_TO_TICKS(1000 / SAMPLE_RATE)\<close> with
  \<^verbatim>\<open>SAMPLE_RATE\<close> 8000. The division is one of integers, so the number of milliseconds
  is 0, not 0.125: every sample of a playback is followed by
  \<^verbatim>\<open>vTaskDelay(pdMS_TO_TICKS(0))\<close>.
\<close>

theorem sample_delay_is_zero_ms:
  "sample_delay_ms = 0 \<and> sample_delay_ticks k = pdMS_TO_TICKS k 0
   \<and> PlaySoundTask_play k d PLAY_SNARE =
     concat (map (\<lambda>i. [AnalogOutputWrite (sint (snare_drum_sample d (int i))),
                        vTaskDelay (pdMS_TO_TICKS k 0)])
                 [0..<nat (snare_drum_size d)])
     @ [AnalogOutputWrite 512]
   \<and> PlaySoundTask_play k d PLAY_HIHAT =
     concat (map (\<lambda>i. [AnalogOutputWrite (sint (hi_hat_sample d (int i))),
                        vTaskDelay (pdMS_TO_TICKS k 0)])
                 [0..<nat (hi_hat_size d)])
     @ [AnalogOutputWrite 512]"
  by (simp add: sample_delay_ms_def SAMPLE_RATE_def sample_delay_ticks_def
      PlaySoundTask_play_def play_samples_upt PLAY_SNARE_def PLAY_HIHAT_def)

text \<open>
  Claim C3. Whatever the slot holds, after a request of sound \<open>a\<close> and then one of
  sound \<open>b\<close>, with no run of the playback task in between, the playback task plays
  exactly once, the sound \<open>b\<close>, however often it runs afterwards. The same holds after any
  number of requests that ends with \<open>b\<close>. And after any calls of the sampling task, at
  most one playback follows: the slot never holds more than one request.
\<close>

theorem overwritten_request_plays_last_once:
  "playbacks k d m
     ([AdcTask_calls (xTaskNotify playSound_task_handle a),
       AdcTask_calls (xTaskNotify playSound_task_handle b)]
      @ replicate (Suc n) PlaySoundTask_runs)
   = [(b, PlaySoundTask_play k d b)]
   \<and> playbacks k d m
       (map (\<lambda>v. AdcTask_calls (xTaskNotify playSound_task_handle v)) (rs @ [b])
        @ replicate (Suc n) PlaySoundTask_runs)
     = [(b, PlaySoundTask_play k d b)]
   \<and> length (playbacks k d m (map AdcTask_calls cs @ replicate n PlaySoundTask_runs)) \<le> 1"
proof -
  have many: "playbacks k d m
       (map (\<lambda>v. AdcTask_calls (xTaskNotify playSound_task_handle v)) (rs @ [b])
        @ replicate (Suc n) PlaySoundTask_runs)
     = [(b, PlaySoundTask_play k d b)]"
    by (simp only: playbacks_requests playbacks_pending)
  have two: "playbacks k d m
     ([AdcTask_calls (xTaskNotify playSound_task_handle a),
       AdcTask_calls (xTaskNotify playSound_task_handle b)]
      @ replicate (Suc n) PlaySoundTask_runs)
   = [(b, PlaySoundTask_play k d b)]"
    using playbacks_pending [of k d b n] by (simp add: notify_overwrite_def)
  show ?thesis
    using two many playbacks_calls_runs by blast
qed

text \<open>
  An instance: a pass in which both pads have an event requests the snare and then the
  hi-hat; the playback task, running twice afterwards, plays the hi-hat once.
\<close>

theorem overwritten_request_plays_last_once_witness:
  "playbacks config_100Hz demo_samples None
     [AdcTask_calls (xTaskNotify playSound_task_handle 1),
      AdcTask_calls (xTaskNotify playSound_task_handle 2),
      PlaySoundTask_runs, PlaySoundTask_runs]
   = [(2, [AnalogOutputWrite 7, vTaskDelay 0, AnalogOutputWrite 512])]"
  using overwritten_request_plays_last_once [of config_100Hz demo_samples None 1 2 1 "[]" "[]"]
  by (simp add: PlaySoundTask_play_def play_samples_upt upt_rec PLAY_SNARE_def PLAY_HIHAT_def
      demo_samples_def config_100Hz_def sample_delay_ticks_def sample_delay_ms_def
      SAMPLE_RATE_def)

end
